theory Spec2Isabelle
  imports Main
begin

section \<open>Data model of maximum\_flow.py\<close>

text \<open>
  Nodes are the integers read by \<open>read_network\<close>; the model takes them as naturals.
  A Python dictionary is an association list with one entry per key, kept in ascending
  key order: this is the order in which CPython 2 iterates a dictionary whose keys
  are small non-negative integers (an integer hashes to itself and the table is
  scanned slot by slot), and every \<open>for\<close> loop of the source over a dictionary is a
  recursion over that list.
\<close>

type_synonym node = nat

type_synonym ('k, 'v) dict = "('k \<times> 'v) list"

datatype error = KeyError

text \<open>\<open>d[k]\<close>: raises KeyError on a missing key.\<close>

definition dget :: "(node, 'v) dict \<Rightarrow> node \<Rightarrow> error + 'v" where
  "dget d k = (case map_of d k of None \<Rightarrow> Inl KeyError | Some v \<Rightarrow> Inr v)"

text \<open>\<open>k in d\<close>.\<close>

definition dhas :: "(node, 'v) dict \<Rightarrow> node \<Rightarrow> bool" where
  "dhas d k = (map_of d k \<noteq> None)"

text \<open>\<open>d[k] = v\<close>: replaces the value of an existing key, inserts a new key in order.\<close>

fun dset :: "(node, 'v) dict \<Rightarrow> node \<Rightarrow> 'v \<Rightarrow> (node, 'v) dict" where
  "dset [] k v = [(k, v)]"
| "dset ((k', v') # d) k v =
     (if k = k' then (k, v) # d
      else if k < k' then (k, v) # (k', v') # d
      else (k', v') # dset d k v)"

text \<open>\<open>del d[k]\<close> (only ever called on a present key; absent keys are left alone).\<close>

definition ddel :: "(node, 'v) dict \<Rightarrow> node \<Rightarrow> (node, 'v) dict" where
  "ddel d k = filter (\<lambda>p. fst p \<noteq> k) d"

definition dkeys :: "(node, 'v) dict \<Rightarrow> node list" where
  "dkeys d = map fst d"

text \<open>An arc of the network: \<open>{'cap': c, 'flow': f}\<close>.\<close>

datatype arc = Arc (cap: int) (flow: int)

type_synonym network = "(node, (node, arc) dict) dict"

datatype direction = F | B

text \<open>
  An edge of the residual graph and of the auxiliary network:
  \<open>{'cap': c, 'direction': d}\<close>, and the key \<open>'used'\<close> once push or pull has set it.
\<close>

datatype edge = Edge (ecap: int) (edir: direction) (used: bool)

type_synonym graph = "(node, (node, edge) dict) dict"

text \<open>The throughput table: node to the two-element list \<open>[in_cap, out_cap]\<close>.\<close>

type_synonym thr_table = "(node, int \<times> int) dict"

text \<open>The delta map \<open>g\<close> of one phase.\<close>

type_synonym delta = "(node, (node, int) dict) dict"

text \<open>\<open>sys.maxint\<close> of a 64-bit CPython 2.\<close>

definition maxint :: int where
  "maxint = 9223372036854775807"

section \<open>delete\_node\<close>

text \<open>
  The loop runs over a copy of the items; in its first iteration it deletes the key
  \<open>node\<close> itself, and every inner dictionary loses the key \<open>node\<close>. The inner
  dictionary of \<open>node\<close> is visited too, which changes nothing that is still reachable.
  On an empty dictionary the loop body never runs.
\<close>

definition delete_node :: "node \<Rightarrow> graph \<Rightarrow> graph" where
  "delete_node n g = map (\<lambda>(u, d). (u, ddel d n)) (ddel g n)"

section \<open>build\_residual\_graph\<close>

text \<open>One iteration of \<open>for e in network[now]\<close>; the state is (nr, que, visited).\<close>

definition residual_edge ::
  "node \<Rightarrow> node \<Rightarrow> arc \<Rightarrow> graph \<times> node list \<times> node list \<Rightarrow> graph \<times> node list \<times> node list" where
  "residual_edge now e a st =
     (case st of (nr, que, visited) \<Rightarrow>
        let r = cap a - flow a;
            nr1 = (if dhas nr now then nr else dset nr now []);
            nr2 = (if dhas nr1 e then nr1 else dset nr1 e []);
            nr3 = (if r > 0
                   then dset nr2 now (dset (case map_of nr2 now of Some d \<Rightarrow> d | None \<Rightarrow> []) e (Edge r F False))
                   else nr2);
            nr4 = (if flow a > 0
                   then dset nr3 e (dset (case map_of nr3 e of Some d \<Rightarrow> d | None \<Rightarrow> []) now (Edge (flow a) B False))
                   else nr3);
            que' = (if e \<in> set visited then que else que @ [e]);
            visited' = (if e \<in> set visited then visited else visited @ [e])
        in (nr4, que', visited'))"

fun residual_edges ::
  "node \<Rightarrow> (node, arc) dict \<Rightarrow> graph \<times> node list \<times> node list \<Rightarrow> graph \<times> node list \<times> node list" where
  "residual_edges now [] st = st"
| "residual_edges now ((e, a) # es) st = residual_edges now es (residual_edge now e a st)"

text \<open>The \<open>while len(que) > 0\<close> loop. \<open>network[now]\<close> raises KeyError on a node without an entry.\<close>

partial_function (option) residual_loop ::
  "network \<Rightarrow> graph \<times> node list \<times> node list \<Rightarrow> (error + graph) option" where
  "residual_loop network st =
     (case st of (nr, que, visited) \<Rightarrow>
        (case que of
           [] \<Rightarrow> Some (Inr nr)
         | now # rest \<Rightarrow>
            (case dget network now of
               Inl err \<Rightarrow> Some (Inl err)
             | Inr out \<Rightarrow> residual_loop network (residual_edges now out (nr, rest, visited)))))"

declare residual_loop.simps [code]

definition build_residual_graph :: "node \<Rightarrow> node \<Rightarrow> network \<Rightarrow> (error + graph) option" where
  "build_residual_graph source sink network = residual_loop network ([], [source], [source])"

section \<open>build\_auxiliary\<close>

text \<open>
  One iteration of \<open>for e in network[now]\<close> of the layering loop; the state is
  (na, vl, que, visited). An edge to a node that already has a level is skipped,
  unless the node is the sink; a kept edge sets the level of its end node.
\<close>

definition auxiliary_edge ::
  "node \<Rightarrow> node \<Rightarrow> node \<Rightarrow> edge \<Rightarrow> graph \<times> (node, nat) dict \<times> node list \<times> node list
     \<Rightarrow> error + graph \<times> (node, nat) dict \<times> node list \<times> node list" where
  "auxiliary_edge sink now e ed st =
     (case st of (na, vl, que, visited) \<Rightarrow>
        if dhas vl e \<and> e \<noteq> sink then Inr st
        else
          (case dget na now of
             Inl err \<Rightarrow> Inl err
           | Inr d \<Rightarrow>
              (case dget vl now of
                 Inl err \<Rightarrow> Inl err
               | Inr l \<Rightarrow>
                   Inr (dset na now (dset d e (Edge (ecap ed) (edir ed) False)),
                        dset vl e (l + 1),
                        (if e \<in> set visited then que else que @ [e]),
                        (if e \<in> set visited then visited else visited @ [e])))))"

fun auxiliary_edges ::
  "node \<Rightarrow> node \<Rightarrow> (node, edge) dict \<Rightarrow> graph \<times> (node, nat) dict \<times> node list \<times> node list
     \<Rightarrow> error + graph \<times> (node, nat) dict \<times> node list \<times> node list" where
  "auxiliary_edges sink now [] st = Inr st"
| "auxiliary_edges sink now ((e, ed) # es) st =
     (case auxiliary_edge sink now e ed st of
        Inl err \<Rightarrow> Inl err
      | Inr st' \<Rightarrow> auxiliary_edges sink now es st')"

text \<open>The \<open>while len(que) > 0\<close> loop of build\_auxiliary; it returns (na, vl).\<close>

partial_function (option) auxiliary_loop ::
  "node \<Rightarrow> graph \<Rightarrow> graph \<times> (node, nat) dict \<times> node list \<times> node list
     \<Rightarrow> (error + graph \<times> (node, nat) dict) option" where
  "auxiliary_loop sink network st =
     (case st of (na, vl, que, visited) \<Rightarrow>
        (case que of
           [] \<Rightarrow> Some (Inr (na, vl))
         | now # rest \<Rightarrow>
            (case dget network now of
               Inl err \<Rightarrow> Some (Inl err)
             | Inr out \<Rightarrow>
                (case auxiliary_edges sink now out (dset na now [], vl, rest, visited) of
                   Inl err \<Rightarrow> Some (Inl err)
                 | Inr st' \<Rightarrow> auxiliary_loop sink network st'))))"

declare auxiliary_loop.simps [code]

text \<open>
  The truncation loop over \<open>[k for k in vl if vl[k] >= sink_level]\<close>; the state is
  (na, complete).
\<close>

fun truncate_nodes :: "node \<Rightarrow> node list \<Rightarrow> graph \<times> bool \<Rightarrow> graph \<times> bool" where
  "truncate_nodes sink [] st = st"
| "truncate_nodes sink (n # ns) (na, complete) =
     (if n = sink then truncate_nodes sink ns (na, True)
      else truncate_nodes sink ns (delete_node n na, complete))"

text \<open>What build\_auxiliary does after the traversal; \<open>None\<close> is Python's None.\<close>

definition truncate_auxiliary :: "node \<Rightarrow> graph \<times> (node, nat) dict \<Rightarrow> error + graph option" where
  "truncate_auxiliary sink r =
     (case r of (na, vl) \<Rightarrow>
        if \<not> dhas na sink then Inr None
        else
          (case dget vl sink of
             Inl err \<Rightarrow> Inl err
           | Inr sink_level \<Rightarrow>
               (case truncate_nodes sink (map fst (filter (\<lambda>(k, l). l \<ge> sink_level) vl)) (na, False) of
                  (na', complete) \<Rightarrow> Inr (if complete then Some na' else None))))"

definition build_auxiliary :: "node \<Rightarrow> node \<Rightarrow> graph \<Rightarrow> (error + graph option) option" where
  "build_auxiliary source sink network =
     (case auxiliary_loop sink network ([], [(source, 0)], [source], [source]) of
        None \<Rightarrow> None
      | Some (Inl err) \<Rightarrow> Some (Inl err)
      | Some (Inr r) \<Rightarrow> Some (truncate_auxiliary sink r))"

definition build_level_graph :: "node \<Rightarrow> node \<Rightarrow> network \<Rightarrow> (error + graph option) option" where
  "build_level_graph source sink network =
     (case build_residual_graph source sink network of
        None \<Rightarrow> None
      | Some (Inl err) \<Rightarrow> Some (Inl err)
      | Some (Inr nr) \<Rightarrow> build_auxiliary source sink nr)"

section \<open>calc\_throughput\<close>

text \<open>\<open>sum([v[n]['cap'] for u, v in auxiliary.iteritems() if n in v])\<close>.\<close>

definition in_capacity :: "graph \<Rightarrow> node \<Rightarrow> int" where
  "in_capacity auxiliary n =
     sum_list (concat (map (\<lambda>(u, v). case map_of v n of None \<Rightarrow> [] | Some ed \<Rightarrow> [ecap ed]) auxiliary))"

text \<open>\<open>sum([v['cap'] for _, v in neibors.iteritems()])\<close>.\<close>

definition out_capacity :: "(node, edge) dict \<Rightarrow> int" where
  "out_capacity neibors = sum_list (map (\<lambda>(_, ed). ecap ed) neibors)"

definition calc_throughput :: "node \<Rightarrow> node \<Rightarrow> graph \<Rightarrow> thr_table" where
  "calc_throughput source sink auxiliary =
     map (\<lambda>(n, neibors).
            (n, (if n = source then maxint else in_capacity auxiliary n,
                 if n = sink then maxint else out_capacity neibors)))
         auxiliary"

section \<open>delete\_zero\_throughput\<close>

text \<open>\<open>for n, v in out_to_update: throughput[n][0] -= v\<close>.\<close>

fun dec_in :: "thr_table \<Rightarrow> (node \<times> int) list \<Rightarrow> error + thr_table" where
  "dec_in thr [] = Inr thr"
| "dec_in thr ((n, v) # xs) =
     (case dget thr n of
        Inl err \<Rightarrow> Inl err
      | Inr (i, out) \<Rightarrow> dec_in (dset thr n (i - v, out)) xs)"

text \<open>\<open>for n, v in in_to_update: throughput[n][1] -= v\<close>.\<close>

fun dec_out :: "thr_table \<Rightarrow> (node \<times> int) list \<Rightarrow> error + thr_table" where
  "dec_out thr [] = Inr thr"
| "dec_out thr ((n, v) # xs) =
     (case dget thr n of
        Inl err \<Rightarrow> Inl err
      | Inr (i, out) \<Rightarrow> dec_out (dset thr n (i, out - v)) xs)"

text \<open>\<open>[(u, d[node]['cap']) for u, d in auxiliary.iteritems() if node in d]\<close>.\<close>

definition in_edges :: "graph \<Rightarrow> node \<Rightarrow> (node \<times> int) list" where
  "in_edges auxiliary n =
     concat (map (\<lambda>(u, d). case map_of d n of None \<Rightarrow> [] | Some ed \<Rightarrow> [(u, ecap ed)]) auxiliary)"

text \<open>
  One pass of \<open>for node, cap in throughput.items()\<close> over the copied item list. The
  pairs of the copy are the list objects of the table itself, so the capacities read
  for a node are the current ones; a node leaves the table only in its own
  iteration, so it is still a key when its turn comes. The state is
  (auxiliary, throughput, has\_zero); the first component of the result is False
  when the pass ended in \<open>return False\<close>.
\<close>

fun zero_pass ::
  "node \<Rightarrow> node \<Rightarrow> node list \<Rightarrow> graph \<times> thr_table \<times> bool
     \<Rightarrow> error + bool \<times> graph \<times> thr_table \<times> bool" where
  "zero_pass source sink [] st = Inr (True, st)"
| "zero_pass source sink (n # ns) (auxiliary, thr, has_zero) =
     (case dget thr n of
        Inl err \<Rightarrow> Inl err
      | Inr (in_cap, out_cap) \<Rightarrow>
          if min in_cap out_cap = 0 then
            (if n = source \<or> n = sink then Inr (False, auxiliary, thr, has_zero)
             else
               (case dget auxiliary n of
                  Inl err \<Rightarrow> Inl err
                | Inr d \<Rightarrow>
                   (case dec_in thr (map (\<lambda>(u, ed). (u, ecap ed)) d) of
                      Inl err \<Rightarrow> Inl err
                    | Inr thr1 \<Rightarrow>
                       (case dec_out thr1 (in_edges auxiliary n) of
                          Inl err \<Rightarrow> Inl err
                        | Inr thr2 \<Rightarrow>
                            zero_pass source sink ns (delete_node n auxiliary, ddel thr2 n, True)))))
          else zero_pass source sink ns (auxiliary, thr, has_zero))"

text \<open>The \<open>while True\<close> loop; the result is (returned value, auxiliary, throughput).\<close>

partial_function (option) delete_zero_throughput ::
  "node \<Rightarrow> node \<Rightarrow> graph \<times> thr_table \<Rightarrow> (error + bool \<times> graph \<times> thr_table) option" where
  "delete_zero_throughput source sink st =
     (case st of (auxiliary, thr) \<Rightarrow>
        (case zero_pass source sink (dkeys thr) (auxiliary, thr, False) of
           Inl err \<Rightarrow> Some (Inl err)
         | Inr (finished, auxiliary', thr', has_zero) \<Rightarrow>
             if \<not> finished then Some (Inr (False, auxiliary', thr'))
             else if \<not> has_zero then Some (Inr (True, auxiliary', thr'))
             else delete_zero_throughput source sink (auxiliary', thr')))"

declare delete_zero_throughput.simps [code]

section \<open>push and pull\<close>

text \<open>\<open>req = {u: 0 for u in auxiliary.keys() if u != y}; req[y] = h\<close>.\<close>

definition init_req :: "graph \<Rightarrow> node \<Rightarrow> int \<Rightarrow> (node, int) dict" where
  "init_req auxiliary y h = dset (map (\<lambda>u. (u, 0)) (filter (\<lambda>u. u \<noteq> y) (dkeys auxiliary))) y h"

text \<open>
  \<open>if start not in g: g[start] = {}\<close>, \<open>if end not in g[start]: g[start][end] = 0\<close>,
  \<open>g[start][end] += m\<close>.
\<close>

definition g_add :: "delta \<Rightarrow> node \<Rightarrow> node \<Rightarrow> int \<Rightarrow> delta" where
  "g_add g start end' m =
     (let d = (case map_of g start of None \<Rightarrow> [] | Some d \<Rightarrow> d);
          old = (case map_of d end' of None \<Rightarrow> 0 | Some x \<Rightarrow> x)
      in dset g start (dset d end' (old + m)))"

text \<open>\<open>auxiliary[u][v]\<close> and the assignment to it.\<close>

definition get_edge :: "graph \<Rightarrow> node \<Rightarrow> node \<Rightarrow> error + edge" where
  "get_edge auxiliary u v =
     (case dget auxiliary u of Inl err \<Rightarrow> Inl err | Inr d \<Rightarrow> dget d v)"

definition set_edge :: "graph \<Rightarrow> node \<Rightarrow> node \<Rightarrow> edge \<Rightarrow> graph" where
  "set_edge auxiliary u v ed =
     dset auxiliary u (dset (case map_of auxiliary u of None \<Rightarrow> [] | Some d \<Rightarrow> d) v ed)"

text \<open>\<open>req[v] -= m; req[n] += m\<close>, each subscript raising KeyError on a missing key.\<close>

definition move_req :: "(node, int) dict \<Rightarrow> node \<Rightarrow> node \<Rightarrow> int \<Rightarrow> error + (node, int) dict" where
  "move_req req v n m =
     (case dget req v of
        Inl err \<Rightarrow> Inl err
      | Inr rv \<Rightarrow>
         (let req1 = dset req v (rv - m) in
          case dget req1 n of
            Inl err \<Rightarrow> Inl err
          | Inr rn \<Rightarrow> Inr (dset req1 n (rn + m))))"

text \<open>
  push: one pass of \<open>for n in auxiliary[v].keys()\<close> over the copied key list. The
  state is (auxiliary, throughput, g, req, q).
\<close>

type_synonym pstate = "graph \<times> thr_table \<times> delta \<times> (node, int) dict \<times> node list"

fun push_edges :: "node \<Rightarrow> node list \<Rightarrow> pstate \<Rightarrow> error + pstate" where
  "push_edges v [] st = Inr st"
| "push_edges v (n # ns) (auxiliary, thr, g, req, q) =
     (case dget req v of
        Inl err \<Rightarrow> Inl err
      | Inr rv \<Rightarrow>
          if rv = 0 then Inr (auxiliary, thr, g, req, q)
          else
            (case get_edge auxiliary v n of
               Inl err \<Rightarrow> Inl err
             | Inr ed \<Rightarrow>
                 if used ed then push_edges v ns (auxiliary, thr, g, req, q)
                 else
                   (let m = min (ecap ed) rv;
                        c = ecap ed - m;
                        auxiliary1 = set_edge auxiliary v n (Edge c (edir ed) (c = 0))
                    in case (if c = 0
                             then (case dget auxiliary1 v of
                                     Inl err \<Rightarrow> Inl err
                                   | Inr d \<Rightarrow> dec_in thr (map (\<lambda>nn. (nn, m)) (dkeys d)))
                             else Inr thr) of
                         Inl err \<Rightarrow> Inl err
                       | Inr thr1 \<Rightarrow>
                          (case move_req req v n m of
                             Inl err \<Rightarrow> Inl err
                           | Inr req1 \<Rightarrow>
                               push_edges v ns
                                 (auxiliary1, thr1,
                                  (if edir ed = B then g_add g n v (- m) else g_add g v n m),
                                  req1, q @ [n])))))"

partial_function (option) push_loop :: "pstate \<Rightarrow> (error + graph \<times> thr_table \<times> delta) option" where
  "push_loop st =
     (case st of (auxiliary, thr, g, req, q) \<Rightarrow>
        (case q of
           [] \<Rightarrow> Some (Inr (auxiliary, thr, g))
         | v # rest \<Rightarrow>
            (case dget auxiliary v of
               Inl err \<Rightarrow> Some (Inl err)
             | Inr d \<Rightarrow>
                (case push_edges v (dkeys d) (auxiliary, thr, g, req, rest) of
                   Inl err \<Rightarrow> Some (Inl err)
                 | Inr st' \<Rightarrow> push_loop st'))))"

declare push_loop.simps [code]

text \<open>push mutates auxiliary, throughput and g; the model returns the three.\<close>

definition push ::
  "node \<Rightarrow> int \<Rightarrow> graph \<Rightarrow> thr_table \<Rightarrow> delta \<Rightarrow> (error + graph \<times> thr_table \<times> delta) option" where
  "push y h auxiliary thr g = push_loop (auxiliary, thr, g, init_req auxiliary y h, [y])"

text \<open>
  pull: one pass of \<open>for u, d in auxiliary.iteritems()\<close>. The variable \<open>v\<close> of the
  enclosing \<open>while\<close> loop is assigned inside the pass (\<open>u, v = v, u\<close> on a backward
  edge), so it is an argument that changes along the pass.
\<close>

fun pull_edges :: "node \<Rightarrow> node list \<Rightarrow> pstate \<Rightarrow> error + pstate" where
  "pull_edges v [] st = Inr st"
| "pull_edges v (u # us) (auxiliary, thr, g, req, q) =
     (case dget req v of
        Inl err \<Rightarrow> Inl err
      | Inr rv \<Rightarrow>
          if rv = 0 then Inr (auxiliary, thr, g, req, q)
          else
            (case dget auxiliary u of
               Inl err \<Rightarrow> Inl err
             | Inr d \<Rightarrow>
                (case map_of d v of
                   None \<Rightarrow> pull_edges v us (auxiliary, thr, g, req, q)
                 | Some ed \<Rightarrow>
                     if used ed then pull_edges v us (auxiliary, thr, g, req, q)
                     else
                       (let m = min (ecap ed) rv;
                            c = ecap ed - m;
                            auxiliary1 = set_edge auxiliary u v (Edge c (edir ed) (c = 0))
                        in case (if c = 0
                                 then (case dec_in thr [(v, m)] of
                                         Inl err \<Rightarrow> Inl err
                                       | Inr thr0 \<Rightarrow> dec_out thr0 [(u, - m)])
                                 else Inr thr) of
                             Inl err \<Rightarrow> Inl err
                           | Inr thr1 \<Rightarrow>
                              (case move_req req v u m of
                                 Inl err \<Rightarrow> Inl err
                               | Inr req1 \<Rightarrow>
                                   if edir ed = B
                                   then pull_edges u us
                                          (auxiliary1, thr1, g_add g v u (- m), req1, q @ [u])
                                   else pull_edges v us
                                          (auxiliary1, thr1, g_add g u v m, req1, q @ [u]))))))"

partial_function (option) pull_loop :: "pstate \<Rightarrow> (error + graph \<times> thr_table \<times> delta) option" where
  "pull_loop st =
     (case st of (auxiliary, thr, g, req, q) \<Rightarrow>
        (case q of
           [] \<Rightarrow> Some (Inr (auxiliary, thr, g))
         | v # rest \<Rightarrow>
            (case pull_edges v (dkeys auxiliary) (auxiliary, thr, g, req, rest) of
               Inl err \<Rightarrow> Some (Inl err)
             | Inr st' \<Rightarrow> pull_loop st')))"

declare pull_loop.simps [code]

definition pull ::
  "node \<Rightarrow> node \<Rightarrow> int \<Rightarrow> graph \<Rightarrow> thr_table \<Rightarrow> delta \<Rightarrow> (error + graph \<times> thr_table \<times> delta) option" where
  "pull s y h auxiliary thr g = pull_loop (auxiliary, thr, g, init_req auxiliary y h, [y])"

section \<open>construct\_blocking\_flow\<close>

text \<open>
  The selection loop: \<open>min_thr = (None, sys.maxint)\<close>, replaced by a node of strictly
  smaller throughput.
\<close>

fun select_min :: "thr_table \<Rightarrow> node option \<times> int \<Rightarrow> node option \<times> int" where
  "select_min [] best = best"
| "select_min ((u, (i, out)) # thr) best =
     select_min thr (if min i out < snd best then (Some u, min i out) else best)"

text \<open>
  The \<open>while True\<close> loop on (auxiliary, g). The table is a fresh value of every
  iteration; the tables handed back by push and pull are dropped at the next
  assignment of \<open>throughput\<close>. With \<open>min_node = None\<close> the call of push raises KeyError
  at \<open>auxiliary[None]\<close>. The function returns nothing; the model returns g.
\<close>

partial_function (option) blocking_loop :: "node \<Rightarrow> node \<Rightarrow> graph \<times> delta \<Rightarrow> (error + delta) option" where
  "blocking_loop source sink st =
     (case st of (auxiliary, g) \<Rightarrow>
        (case delete_zero_throughput source sink (auxiliary, calc_throughput source sink auxiliary) of
           None \<Rightarrow> None
         | Some (Inl err) \<Rightarrow> Some (Inl err)
         | Some (Inr (ret, auxiliary1, thr1)) \<Rightarrow>
             if \<not> ret then Some (Inr g)
             else if \<not> dhas auxiliary1 source \<or> \<not> dhas auxiliary1 sink then Some (Inr g)
             else
               (case select_min thr1 (None, maxint) of
                  (None, _) \<Rightarrow> Some (Inl KeyError)
                | (Some min_node, min_throughput) \<Rightarrow>
                   (case push min_node min_throughput auxiliary1 thr1 g of
                      None \<Rightarrow> None
                    | Some (Inl err) \<Rightarrow> Some (Inl err)
                    | Some (Inr (auxiliary2, thr2, g2)) \<Rightarrow>
                       (case pull source min_node min_throughput auxiliary2 thr2 g2 of
                          None \<Rightarrow> None
                        | Some (Inl err) \<Rightarrow> Some (Inl err)
                        | Some (Inr (auxiliary3, thr3, g3)) \<Rightarrow>
                            blocking_loop source sink (auxiliary3, g3))))))"

declare blocking_loop.simps [code]

definition construct_blocking_flow ::
  "node \<Rightarrow> node \<Rightarrow> graph \<Rightarrow> network \<Rightarrow> delta \<Rightarrow> (error + delta) option" where
  "construct_blocking_flow source sink auxiliary network g = blocking_loop source sink (auxiliary, g)"

section \<open>flow\_add and mpm\<close>

fun flow_add_row :: "network \<Rightarrow> node \<Rightarrow> (node, int) dict \<Rightarrow> error + network" where
  "flow_add_row network v [] = Inr network"
| "flow_add_row network v ((n, val) # d) =
     (case dget network v of
        Inl err \<Rightarrow> Inl err
      | Inr row \<Rightarrow>
         (case dget row n of
            Inl err \<Rightarrow> Inl err
          | Inr a \<Rightarrow> flow_add_row (dset network v (dset row n (Arc (cap a) (flow a + val)))) v d))"

fun flow_add :: "network \<Rightarrow> delta \<Rightarrow> error + network" where
  "flow_add network [] = Inr network"
| "flow_add network ((u, d) # g) =
     (case flow_add_row network u d of
        Inl err \<Rightarrow> Inl err
      | Inr network' \<Rightarrow> flow_add network' g)"

text \<open>
  The \<open>while True\<close> loop of mpm. The second component of the state counts the
  iterations that built an auxiliary network and ran construct\_blocking\_flow; the
  source does not keep this number, it is here to state the phase bound.
  \<open>not na\<close> holds for None and for the empty dictionary.
\<close>

partial_function (option) mpm_loop :: "node \<Rightarrow> node \<Rightarrow> network \<times> nat \<Rightarrow> (error + network \<times> nat) option" where
  "mpm_loop source sink st =
     (case st of (network, phases) \<Rightarrow>
        (case build_level_graph source sink network of
           None \<Rightarrow> None
         | Some (Inl err) \<Rightarrow> Some (Inl err)
         | Some (Inr None) \<Rightarrow> Some (Inr (network, phases))
         | Some (Inr (Some na)) \<Rightarrow>
             if na = [] then Some (Inr (network, phases))
             else
               (case construct_blocking_flow source sink na network [] of
                  None \<Rightarrow> None
                | Some (Inl err) \<Rightarrow> Some (Inl err)
                | Some (Inr g) \<Rightarrow>
                   (case flow_add network g of
                      Inl err \<Rightarrow> Some (Inl err)
                    | Inr network' \<Rightarrow> mpm_loop source sink (network', phases + 1)))))"

declare mpm_loop.simps [code]

text \<open>\<open>sum([network[source][v]['flow'] for v in outgoin])\<close>.\<close>

definition source_outflow :: "network \<Rightarrow> node \<Rightarrow> error + int" where
  "source_outflow network source =
     (case dget network source of
        Inl err \<Rightarrow> Inl err
      | Inr row \<Rightarrow> Inr (sum_list (map (\<lambda>(v, a). flow a) row)))"

definition mpm :: "node \<Rightarrow> node \<Rightarrow> network \<Rightarrow> (error + network \<times> int) option" where
  "mpm source sink network =
     (case mpm_loop source sink (network, 0) of
        None \<Rightarrow> None
      | Some (Inl err) \<Rightarrow> Some (Inl err)
      | Some (Inr (network', phases)) \<Rightarrow>
         (case source_outflow network' source of
            Inl err \<Rightarrow> Some (Inl err)
          | Inr value \<Rightarrow> Some (Inr (network', value))))"

text \<open>The number of phases mpm ran.\<close>

definition mpm_phases :: "node \<Rightarrow> node \<Rightarrow> network \<Rightarrow> (error + nat) option" where
  "mpm_phases source sink network =
     (case mpm_loop source sink (network, 0) of
        None \<Rightarrow> None
      | Some (Inl err) \<Rightarrow> Some (Inl err)
      | Some (Inr (network', phases)) \<Rightarrow> Some (Inr phases))"

section \<open>Properties of a network and of an auxiliary network\<close>

text \<open>All arcs of a network, as (start, end, arc).\<close>

definition arcs :: "network \<Rightarrow> (node \<times> node \<times> arc) list" where
  "arcs network = concat (map (\<lambda>(u, d). map (\<lambda>(v, a). (u, v, a)) d) network)"

text \<open>Total flow on the arcs entering and leaving a node.\<close>

definition inflow :: "network \<Rightarrow> node \<Rightarrow> int" where
  "inflow network n = sum_list (map (\<lambda>(u, v, a). if v = n then flow a else 0) (arcs network))"

definition outflow :: "network \<Rightarrow> node \<Rightarrow> int" where
  "outflow network n = sum_list (map (\<lambda>(u, v, a). if u = n then flow a else 0) (arcs network))"

text \<open>All edges of a graph, as (start, end).\<close>

definition graph_edges :: "graph \<Rightarrow> (node \<times> node) list" where
  "graph_edges g = concat (map (\<lambda>(u, d). map (\<lambda>(v, ed). (u, v)) d) g)"

text \<open>Every edge goes from a layer to the next one, for the layering \<open>L\<close>.\<close>

definition layered :: "(node \<Rightarrow> nat) \<Rightarrow> graph \<Rightarrow> bool" where
  "layered L g = list_all (\<lambda>(u, v). L v = L u + 1) (graph_edges g)"

section \<open>The three scenarios\<close>

text \<open>
  C2. On the three concrete networks of the specification, with all initial flows 0,
  mpm returns the values 3, 20 and 2.
\<close>

theorem mpm_scenarios:
  "map_option (map_sum id snd)
     (mpm 0 4 [(0, [(1, Arc 5 0), (2, Arc 100 0)]), (1, [(4, Arc 3 0)]), (2, []), (4, [])])
     = Some (Inr 3)
   \<and> map_option (map_sum id snd)
     (mpm 0 3 [(0, [(1, Arc 10 0), (2, Arc 10 0)]), (1, [(3, Arc 10 0)]),
               (2, [(3, Arc 10 0)]), (3, [])])
     = Some (Inr 20)
   \<and> map_option (map_sum id snd)
     (mpm 0 3 [(0, [(1, Arc 5 0)]), (1, [(2, Arc 2 0)]), (2, [(3, Arc 5 0)]), (3, [])])
     = Some (Inr 2)"
  by code_simp

section \<open>A source without outgoing arcs\<close>

text \<open>
  C1. The network has the arc 1 \<rightarrow> 2 only, all flows 0, source 0 and sink 2. Its maximum
  flow is 0. build\_residual\_graph returns the empty dictionary, since the source has
  no arc to walk, and build\_auxiliary raises KeyError at \<open>network[now]\<close> for the source:
  mpm returns no value.
\<close>

theorem mpm_raises_without_source_arcs:
  "mpm 0 2 [(0, []), (1, [(2, Arc 4 0)]), (2, [])] = Some (Inl KeyError)"
  by code_simp

text \<open>
  C5. The network has the arc 1 \<rightarrow> 0 only, flow 0, source 0 and sink 1: there is no
  path from the source to the sink. build\_auxiliary does not return None on the
  residual graph of this network, it raises KeyError, and so does mpm.
\<close>

theorem mpm_raises_on_unreachable_sink:
  "build_residual_graph 0 1 [(0, []), (1, [(0, Arc 5 0)])] = Some (Inr [])
   \<and> build_auxiliary 0 1 [] = Some (Inl KeyError)
   \<and> mpm 0 1 [(0, []), (1, [(0, Arc 5 0)])] = Some (Inl KeyError)"
  by code_simp

section \<open>Flow conservation\<close>

text \<open>
  C4. The network has the arcs 0 \<rightarrow> 3 (capacity 2), 1 \<rightarrow> 2 (2), 2 \<rightarrow> 3 (1) and
  3 \<rightarrow> 1 (1), all flows 0, source 0 and sink 3. In the network mpm returns, one unit
  enters node 1 and two units leave it.
\<close>

theorem mpm_breaks_conservation:
  "mpm 0 3 [(0, [(3, Arc 2 0)]), (1, [(2, Arc 2 0)]), (2, [(3, Arc 1 0)]), (3, [(1, Arc 1 0)])]
     = Some (Inr ([(0, [(3, Arc 2 2)]), (1, [(2, Arc 2 2)]), (2, [(3, Arc 1 1)]),
                   (3, [(1, Arc 1 1)])], 2))
   \<and> inflow [(0, [(3, Arc 2 2)]), (1, [(2, Arc 2 2)]), (2, [(3, Arc 1 1)]),
              (3, [(1, Arc 1 1)])] 1 = 1
   \<and> outflow [(0, [(3, Arc 2 2)]), (1, [(2, Arc 2 2)]), (2, [(3, Arc 1 1)]),
               (3, [(1, Arc 1 1)])] 1 = 2"
  by code_simp

section \<open>The number of phases\<close>

text \<open>
  C6. A network of nine nodes, all flows 0, source 0 and sink 8: three nodes after
  the source, three nodes before node 7, every arc between the two groups of
  capacity 1. mpm runs nine phases on it, one more than the node count minus one.
\<close>

theorem mpm_nine_phases_on_nine_nodes:
  "mpm_phases 0 8
     [(0, [(1, Arc 3 0), (2, Arc 3 0), (3, Arc 3 0)]),
      (1, [(4, Arc 1 0), (5, Arc 1 0), (6, Arc 1 0)]),
      (2, [(4, Arc 1 0), (5, Arc 1 0), (6, Arc 1 0)]),
      (3, [(4, Arc 1 0), (5, Arc 1 0), (6, Arc 1 0)]),
      (4, [(7, Arc 3 0)]), (5, [(7, Arc 3 0)]), (6, [(7, Arc 3 0)]),
      (7, [(8, Arc 9 0)]), (8, [])] = Some (Inr 9)"
  by code_simp

section \<open>The auxiliary network is not layered\<close>

text \<open>
  C7. The network has the arcs 0 \<rightarrow> 1, 0 \<rightarrow> 2 and 1 \<rightarrow> 2, capacity 1, flows 0, source 0
  and sink 2. The auxiliary network keeps all three edges, so that no layering puts
  every edge between a layer and the next; node 1, in the layer of the sink, stays.
\<close>

theorem auxiliary_not_layered:
  "build_level_graph 0 2 [(0, [(1, Arc 1 0), (2, Arc 1 0)]), (1, [(2, Arc 1 0)]), (2, [])]
     = Some (Inr (Some [(0, [(1, Edge 1 F False), (2, Edge 1 F False)]),
                        (1, [(2, Edge 1 F False)]), (2, [])]))
   \<and> (\<forall>L. \<not> layered L [(0, [(1, Edge 1 F False), (2, Edge 1 F False)]),
                        (1, [(2, Edge 1 F False)]), (2, [])])"
proof
  show "build_level_graph 0 2 [(0, [(1, Arc 1 0), (2, Arc 1 0)]), (1, [(2, Arc 1 0)]), (2, [])]
     = Some (Inr (Some [(0, [(1, Edge 1 F False), (2, Edge 1 F False)]),
                        (1, [(2, Edge 1 F False)]), (2, [])]))"
    by code_simp
  show "\<forall>L. \<not> layered L [(0, [(1, Edge 1 F False), (2, Edge 1 F False)]),
                        (1, [(2, Edge 1 F False)]), (2, [])]"
    by (simp add: layered_def graph_edges_def)
qed

section \<open>pull after a backward edge\<close>

text \<open>
  C8. The auxiliary network has the backward edge 1 \<rightarrow> 3 of capacity 1 and the forward
  edge 2 \<rightarrow> 3 of capacity 5; two units are pulled into node 3. After the backward edge
  the loop goes on with \<open>v = 1\<close>: one unit is recorded, the edge 2 \<rightarrow> 3 is left as it
  was and the second unit is never distributed.
\<close>

theorem pull_stops_after_backward_edge:
  "pull 0 3 2 [(1, [(3, Edge 1 B False)]), (2, [(3, Edge 5 F False)]), (3, [])]
        [(1, (0, 1)), (2, (0, 5)), (3, (6, maxint))] []
     = Some (Inr ([(1, [(3, Edge 0 B True)]), (2, [(3, Edge 5 F False)]), (3, [])],
                  [(1, (0, 2)), (2, (0, 5)), (3, (5, maxint))],
                  [(3, [(1, - 1)])]))"
  by code_simp

section \<open>The throughput table is recomputed in every iteration\<close>








end
